theory Spec2Isabelle
  imports Main "HOL-Library.Sublist"
begin

section \<open>Text\<close>

text \<open>
  Python's \<open>str\<close> is modelled by \<^typ>\<open>string\<close>, read as the UTF-8 bytes of the text.
  The spider uses two operations on text: \<open>str.strip()\<close> and the substring test
  \<open>sub in s\<close>.

  \<open>str.strip()\<close> without argument removes leading and trailing characters for which
  \<open>str.isspace\<close> holds. \<open>whitespace\<close> lists the UTF-8 encodings of these characters:
  U+0009..U+000D, U+001C..U+0020, U+0085, U+00A0, U+1680, U+2000..U+200A, U+2028,
  U+2029, U+202F, U+205F and U+3000.
\<close>

definition whitespace :: "string list" where
  "whitespace =
    [[CHR 0x09], [CHR 0x0A], [CHR 0x0B], [CHR 0x0C], [CHR 0x0D],
     [CHR 0x1C], [CHR 0x1D], [CHR 0x1E], [CHR 0x1F], [CHR 0x20],
     [CHR 0xC2, CHR 0x85], [CHR 0xC2, CHR 0xA0],
     [CHR 0xE1, CHR 0x9A, CHR 0x80],
     [CHR 0xE2, CHR 0x80, CHR 0x80], [CHR 0xE2, CHR 0x80, CHR 0x81],
     [CHR 0xE2, CHR 0x80, CHR 0x82], [CHR 0xE2, CHR 0x80, CHR 0x83],
     [CHR 0xE2, CHR 0x80, CHR 0x84], [CHR 0xE2, CHR 0x80, CHR 0x85],
     [CHR 0xE2, CHR 0x80, CHR 0x86], [CHR 0xE2, CHR 0x80, CHR 0x87],
     [CHR 0xE2, CHR 0x80, CHR 0x88], [CHR 0xE2, CHR 0x80, CHR 0x89],
     [CHR 0xE2, CHR 0x80, CHR 0x8A],
     [CHR 0xE2, CHR 0x80, CHR 0xA8], [CHR 0xE2, CHR 0x80, CHR 0xA9],
     [CHR 0xE2, CHR 0x80, CHR 0xAF],
     [CHR 0xE2, CHR 0x81, CHR 0x9F],
     [CHR 0xE3, CHR 0x80, CHR 0x80]]"

function lstrip :: "string \<Rightarrow> string" where
  "lstrip s =
     (case find (\<lambda>w. prefix w s) whitespace of
        None \<Rightarrow> s
      | Some w \<Rightarrow> lstrip (drop (length w) s))"
  by pat_completeness auto
termination
proof (relation "measure length")
  show "wf (measure length)" by simp
next
  fix s w :: string
  assume "find (\<lambda>w. prefix w s) whitespace = Some w"
  then have "w \<in> set whitespace" and "prefix w s"
    by (auto simp: find_Some_iff)
  then have "w \<noteq> []" and "length w \<le> length s"
    by (auto simp: whitespace_def prefix_length_le)
  then show "(drop (length w) s, s) \<in> measure length"
    by (cases w) auto
qed

function rstrip :: "string \<Rightarrow> string" where
  "rstrip s =
     (case find (\<lambda>w. suffix w s) whitespace of
        None \<Rightarrow> s
      | Some w \<Rightarrow> rstrip (take (length s - length w) s))"
  by pat_completeness auto
termination
proof (relation "measure length")
  show "wf (measure length)" by simp
next
  fix s w :: string
  assume "find (\<lambda>w. suffix w s) whitespace = Some w"
  then have "w \<in> set whitespace" and "suffix w s"
    by (auto simp: find_Some_iff)
  then have "w \<noteq> []" and "length w \<le> length s"
    by (auto simp: whitespace_def suffix_length_le)
  then show "(take (length s - length w) s, s) \<in> measure length"
    by (cases w) auto
qed

declare lstrip.simps [simp del] rstrip.simps [simp del]

definition strip :: "string \<Rightarrow> string" where
  "strip s = rstrip (lstrip s)"

text \<open>Python's \<open>sub in s\<close> on two \<open>str\<close> values: \<open>sub\<close> occurs in \<open>s\<close> at some position.\<close>

fun str_in :: "string \<Rightarrow> string \<Rightarrow> bool" where
  "str_in sub [] = (sub = [])"
| "str_in sub (c # cs) = (prefix sub (c # cs) \<or> str_in sub cs)"

text \<open>Truthiness of an \<open>Optional[str]\<close>: \<open>None\<close> and the empty string are falsy.\<close>

fun truthy :: "string option \<Rightarrow> bool" where
  "truthy None = False"
| "truthy (Some s) = (s \<noteq> [])"

section \<open>Rendered documents\<close>

text \<open>
  The spider sees a rendered page only through parsel's \<open>Selector\<close>: it asks CSS queries
  (\<open>.css(q)\<close>), takes the first or all extracted strings of the answer (\<open>.get()\<close>,
  \<open>.getall()\<close>) and nothing else. The CSS engine is a library outside the repository, so a
  node is modelled by what the library reports about it: the string it extracts to, the
  attributes of its element, and its answer to every CSS query (a query that is not listed
  matches nothing).
\<close>

datatype selector =
  Selector (extracted: string) (attrib: "(string \<times> string) list")
    (matches: "(string \<times> selector list) list")

definition css :: "selector \<Rightarrow> string \<Rightarrow> selector list" where
  "css sel query = (case map_of (matches sel) query of None \<Rightarrow> [] | Some found \<Rightarrow> found)"

text \<open>\<open>SelectorList.get()\<close>, \<open>.get(default=d)\<close> and \<open>.getall()\<close>.\<close>

fun get :: "selector list \<Rightarrow> string option" where
  "get [] = None"
| "get (x # xs) = Some (extracted x)"

fun get_default :: "selector list \<Rightarrow> string \<Rightarrow> string" where
  "get_default [] d = d"
| "get_default (x # xs) d = extracted x"

definition getall :: "selector list \<Rightarrow> string list" where
  "getall xs = map extracted xs"

section \<open>Requests, responses and records\<close>

text \<open>
  The \<open>meta\<close> dictionary of a request, by the keys the spider writes. \<open>retry_times\<close> is
  written only by \<open>errback\<close>, as the previous count plus one starting from the default 0,
  so it is a natural number.
\<close>

record meta =
  playwright :: "bool option"
  playwright_page_methods :: "(string \<times> string) list option"
  playwright_context :: "string option"
  retry_times :: "nat option"

definition no_meta :: meta where
  "no_meta = \<lparr>playwright = None, playwright_page_methods = None,
              playwright_context = None, retry_times = None\<rparr>"

text \<open>\<open>meta.get('retry_times', d)\<close>.\<close>

definition meta_get_retry_times :: "meta \<Rightarrow> nat \<Rightarrow> nat" where
  "meta_get_retry_times m d = (case retry_times m of None \<Rightarrow> d | Some n \<Rightarrow> n)"

text \<open>
  A request names the method that receives its response (\<open>callback\<close>) and the method that
  receives its failure (the keyword \<open>errback\<close>, here the field \<open>on_failure\<close>); the spider
  passes \<open>self.errback\<close> for every request.
\<close>

datatype callback = Parse_search | Parse_profile

datatype errback_method = Errback

record request =
  url :: string
  meta :: meta
  callback :: callback
  on_failure :: errback_method

text \<open>
  A response: its URL, the selector over its rendered body (\<open>Selector(response)\<close>), its
  text encoding and its method \<open>urljoin\<close>, which resolves a link against the URL (a library
  function, taken as given).
\<close>

record response =
  url :: string
  selector :: selector
  encoding :: string
  urljoin :: "string \<Rightarrow> string"

text \<open>
  The framework's constructor \<open>Request(url, ...)\<close> stores the URL escaped, as
  \<open>escape_ajax(safe_url_string(url, encoding))\<close>. The escaping belongs to the library and
  is taken as given: \<open>escaped_url lib url encoding\<close>.
\<close>

record library =
  escaped_url :: "string \<Rightarrow> string \<Rightarrow> string"

datatype failure = Failure (request: request)

record LinkedInProfile =
  name :: string
  headline :: string
  location :: string
  current_position :: string
  educations_in_france :: "(string \<times> string) list list"
  skills :: "string list"
  profile_url :: string
  scraped_at :: string

text \<open>The spider object: its class attribute \<open>name\<close> and its counter.\<close>

record spider =
  spider_name :: string
  total_profiles :: nat

definition init :: spider where
  "init = \<lparr>spider_name = ''linkedin'', total_profiles = 0\<rparr>"

definition search_url :: string where
  "search_url =
     ''https://www.linkedin.com/search/results/people/'' @
     ''?keywords=France%20AND%20%28engineering%20OR%20medical%20OR%20%22computer%20science%22%29'' @
     ''&origin=GLOBAL_SEARCH_HEADER''"

text \<open>
  The exceptions: \<open>CloseSpider\<close>, which the spider raises in \<open>on_spider_closed\<close> with the
  message that no profiles were scraped, and \<open>ValueError\<close>, which the constructor of a
  request raises for a URL without scheme.
\<close>

datatype exception = CloseSpider | ValueError

text \<open>
  The log lines, one constructor per logging call of the spider:
  \<^item> \<open>Spider_closed n k\<close>: info, \<open>[spider_closed] n finished; profiles scraped: k\<close>
  \<^item> \<open>Scraped n u\<close>: info, \<open>[scraped] n | u\<close>
  \<^item> \<open>Request_failed u\<close>: error, \<open>[error] Request failed: u\<close>
  \<^item> \<open>Retrying u b\<close>: debug, \<open>[retry] Retrying u after bs\<close>
  \<^item> \<open>Giveup u r\<close>: warning, \<open>[giveup] u after r retries\<close>
\<close>

datatype log_record =
  Spider_closed string nat
| Scraped string string
| Request_failed string
| Retrying string nat
| Giveup string nat

datatype yield = Req request | Item LinkedInProfile

text \<open>
  What one call of a handler does: the values it yields in order, the arguments of its
  calls to \<open>time.sleep\<close>, the lines it logs, the spider object afterwards, and the
  exception that ended the call, if one did (a handler is a generator: what it yielded
  before the exception stays yielded, and nothing is yielded after it).
\<close>

record outcome =
  yielded :: "yield list"
  slept :: "nat list"
  logged :: "log_record list"
  self_after :: spider
  raised :: "exception list"

section \<open>The framework's requests\<close>

text \<open>
  The constructor of a request escapes the URL and then refuses it, with \<open>ValueError\<close>
  (missing scheme in request url), when the escaped URL neither contains \<open>://\<close> nor starts
  with \<open>about:\<close> or \<open>data:\<close>.
\<close>

definition missing_scheme :: "string \<Rightarrow> bool" where
  "missing_scheme u =
     (\<not> str_in ''://'' u \<and> \<not> prefix ''about:'' u \<and> \<not> prefix ''data:'' u)"

definition Request ::
  "library \<Rightarrow> string \<Rightarrow> string \<Rightarrow> meta \<Rightarrow> callback \<Rightarrow> errback_method \<Rightarrow> exception + request"
  where
  "Request lib u enc m cb eb =
     (let escaped = escaped_url lib u enc
      in if missing_scheme escaped then Inl ValueError
         else Inr \<lparr>request.url = escaped, meta = m, callback = cb, on_failure = eb\<rparr>)"

text \<open>
  \<open>response.follow(link, callback, meta, errback)\<close> resolves the link with \<open>urljoin\<close> and
  constructs the request with the encoding of the response.
\<close>

definition follow ::
  "library \<Rightarrow> response \<Rightarrow> string \<Rightarrow> callback \<Rightarrow> meta \<Rightarrow> errback_method \<Rightarrow>
     exception + request" where
  "follow lib response link cb m eb =
     Request lib (urljoin response link) (encoding response) m cb eb"

section \<open>The spider\<close>

definition on_spider_closed :: "spider \<Rightarrow> spider \<Rightarrow> log_record list \<times> exception option" where
  "on_spider_closed self spider =
     ([Spider_closed (spider_name spider) (total_profiles self)],
      if total_profiles self = 0 then Some CloseSpider else None)"

text \<open>\<open>start_requests\<close>: the one request it yields, or the exception of its constructor.\<close>

definition start_requests :: "library \<Rightarrow> spider \<Rightarrow> exception + request list" where
  "start_requests lib self =
     (case Request lib search_url ''utf-8''
             (no_meta\<lparr>playwright := Some True,
                playwright_page_methods :=
                  Some [(''wait_for_selector'', ''ul.reusable-search__result-list'')],
                playwright_context := Some ''default''\<rparr>)
             Parse_search Errback of
        Inl e \<Rightarrow> Inl e
      | Inr rq \<Rightarrow> Inr [rq])"

text \<open>
  The loop of \<open>parse_search\<close> over the result entries: the requests it yields, and the
  exception of \<open>response.follow\<close> that ends it, if there is one.
\<close>

fun enqueue_profiles :: "library \<Rightarrow> response \<Rightarrow> selector list \<Rightarrow> yield list \<times> exception list"
  where
  "enqueue_profiles lib response [] = ([], [])"
| "enqueue_profiles lib response (entry # entries) =
     (let profile_link = get (css entry ''a.app-aware-link::attr(href)'')
      in if truthy profile_link
         then (case follow lib response (the profile_link) Parse_profile
                      (no_meta\<lparr>playwright := Some True\<rparr>) Errback of
                 Inl e \<Rightarrow> ([], [e])
               | Inr rq \<Rightarrow>
                   (case enqueue_profiles lib response entries of
                      (ys, es) \<Rightarrow> (Req rq # ys, es)))
         else enqueue_profiles lib response entries)"

definition parse_search :: "library \<Rightarrow> spider \<Rightarrow> response \<Rightarrow> outcome" where
  "parse_search lib self response =
     (let sel = selector response;
          results = css sel ''ul.reusable-search__result-list li div.entity-result__item'';
          details = fst (enqueue_profiles lib response results);
          errors = snd (enqueue_profiles lib response results)
      in if errors \<noteq> []
         then \<lparr>yielded = details, slept = [], logged = [], self_after = self,
               raised = errors\<rparr>
         else
          (let next_button = get (css sel ''button[aria-label='Next']'')
           in if truthy next_button
              then (case Request lib (response.url response) ''utf-8''
                           (no_meta\<lparr>playwright := Some True,
                              playwright_page_methods :=
                                Some [(''click'', ''button[aria-label='Next']''),
                                      (''wait_for_selector'',
                                       ''ul.reusable-search__result-list'')]\<rparr>)
                           Parse_search Errback of
                      Inl e \<Rightarrow>
                        \<lparr>yielded = details, slept = [], logged = [], self_after = self,
                         raised = [e]\<rparr>
                    | Inr rq \<Rightarrow>
                        \<lparr>yielded = details @ [Req rq], slept = [], logged = [],
                         self_after = self, raised = []\<rparr>)
              else \<lparr>yielded = details, slept = [], logged = [], self_after = self,
                    raised = []\<rparr>))"

text \<open>
  \<open>parse_profile\<close>. The clock reading \<open>now\<close> is the value of
  \<open>time.strftime("%Y-%m-%d %H:%M:%S")\<close> when the record is constructed.
\<close>

definition school :: "selector \<Rightarrow> string" where
  "school edu = strip (get_default (css edu ''h3.pv-entity__school-name::text'') '''')"

definition degree :: "selector \<Rightarrow> string" where
  "degree edu = strip (get_default (css edu ''p.pv-entity__degree-name span::text'') '''')"

definition period :: "selector \<Rightarrow> string" where
  "period edu =
     strip (get_default (css edu ''p.pv-entity__dates span:nth-child(2)::text'') '''')"

text \<open>One round of the loop over the education entries: what it appends to the list.\<close>

definition education :: "selector \<Rightarrow> (string \<times> string) list list" where
  "education edu =
     (if str_in ''France'' (school edu) \<or> str_in ''France'' (period edu)
      then [[(''school'', school edu), (''degree'', degree edu), (''period'', period edu)]]
      else [])"

definition parse_profile :: "string \<Rightarrow> spider \<Rightarrow> response \<Rightarrow> outcome" where
  "parse_profile now self response =
     (let sel = selector response;
          name = strip (get_default
            (css sel ''li.inline.t-24.t-black.t-normal.break-words::text'') '''');
          headline = strip (get_default
            (css sel ''h2.mt1.t-18.t-black.t-normal.break-words::text'') '''');
          location = strip (get_default
            (css sel ''li.t-16.t-black.t-normal.inline-block::text'') '''');
          current_position = strip (get_default
            (css sel (''section#experience-section li.pv-entity__position-group-pager '' @
                      ''h3.t-16.t-black.t-bold a::text'')) '''');
          educations = concat (map education
            (css sel ''section#education-section li.education__list-item''));
          skills = getall (css sel
            (''section.pv-skill-categories-section '' @
             ''span.pv-skill-category-entity__name-text::text''));
          profile = \<lparr>name = name, headline = headline, location = location,
                     current_position = current_position,
                     educations_in_france = educations,
                     skills = map strip skills,
                     profile_url = response.url response,
                     scraped_at = now\<rparr>
      in \<lparr>yielded = [Item profile], slept = [],
          logged = [Scraped (LinkedInProfile.name profile) (profile_url profile)],
          self_after = self\<lparr>total_profiles := total_profiles self + 1\<rparr>,
          raised = []\<rparr>)"

definition errback :: "spider \<Rightarrow> failure \<Rightarrow> outcome" where
  "errback self failure =
     (let request = request failure;
          retries = meta_get_retry_times (meta request) 0
      in if retries < 3
         then (let backoff = 2 ^ retries;
                   req = request\<lparr>meta := (meta request)\<lparr>retry_times := Some (retries + 1)\<rparr>\<rparr>
               in \<lparr>yielded = [Req req], slept = [backoff],
                   logged = [Request_failed (request.url request),
                             Retrying (request.url request) backoff],
                   self_after = self, raised = []\<rparr>)
         else \<lparr>yielded = [], slept = [],
               logged = [Request_failed (request.url request),
                         Giveup (request.url request) retries],
               self_after = self, raised = []\<rparr>)"

section \<open>A run of the spider\<close>

text \<open>
  The framework drives the spider: it hands each response to the callback of its request and
  each failure to \<open>errback\<close>, one call at a time, and calls \<open>on_spider_closed\<close> when no
  work is left. A run is modelled by the sequence of these calls, each with the clock
  reading at the call; the results of the calls are collected and the spider object is
  threaded through them. An exception that ends a call is recorded and the run goes on
  with the next call.
\<close>

datatype event = Delivered request response | Failed failure

fun dispatch :: "library \<Rightarrow> string \<Rightarrow> spider \<Rightarrow> event \<Rightarrow> outcome" where
  "dispatch lib now self (Delivered rq response) =
     (case callback rq of
        Parse_search \<Rightarrow> parse_search lib self response
      | Parse_profile \<Rightarrow> parse_profile now self response)"
| "dispatch lib now self (Failed failure) = errback self failure"

fun run :: "library \<Rightarrow> spider \<Rightarrow> (string \<times> event) list \<Rightarrow> outcome" where
  "run lib self [] =
     \<lparr>yielded = [], slept = [], logged = [], self_after = self, raised = []\<rparr>"
| "run lib self ((now, ev) # evs) =
     (let first = dispatch lib now self ev;
          rest = run lib (self_after first) evs
      in \<lparr>yielded = yielded first @ yielded rest,
          slept = slept first @ slept rest,
          logged = logged first @ logged rest,
          self_after = self_after rest,
          raised = raised first @ raised rest\<rparr>)"

text \<open>The records, the detail-page requests and the advance requests among yielded values.\<close>

fun items :: "yield list \<Rightarrow> LinkedInProfile list" where
  "items [] = []"
| "items (Item p # ys) = p # items ys"
| "items (Req r # ys) = items ys"

fun requests_for :: "callback \<Rightarrow> yield list \<Rightarrow> request list" where
  "requests_for cb [] = []"
| "requests_for cb (Req r # ys) =
     (if callback r = cb then r # requests_for cb ys else requests_for cb ys)"
| "requests_for cb (Item p # ys) = requests_for cb ys"

definition detail_requests :: "yield list \<Rightarrow> request list" where
  "detail_requests ys = requests_for Parse_profile ys"

definition advance_requests :: "yield list \<Rightarrow> request list" where
  "advance_requests ys = requests_for Parse_search ys"

fun is_detail_page :: "string \<times> event \<Rightarrow> bool" where
  "is_detail_page (now, Delivered rq response) = (callback rq = Parse_profile)"
| "is_detail_page (now, Failed failure) = False"

text \<open>
  The profile links of a list of result entries, in order: for each entry, the first
  \<open>href\<close> of an \<open>a.app-aware-link\<close> below it, when there is one and it is not empty.
\<close>

fun profile_links :: "selector list \<Rightarrow> string list" where
  "profile_links [] = []"
| "profile_links (entry # entries) =
     (case css entry ''a.app-aware-link::attr(href)'' of
        [] \<Rightarrow> profile_links entries
      | a # _ \<Rightarrow> if extracted a = [] then profile_links entries
                else extracted a # profile_links entries)"

text \<open>
  The request that follows a profile link of a response, and the request that clicks the
  next-page button on the page of a response, as the constructor builds them when it
  accepts their URLs; \<open>link_accepted\<close> and \<open>page_accepted\<close> say that it does.
\<close>

definition profile_request :: "library \<Rightarrow> response \<Rightarrow> string \<Rightarrow> request" where
  "profile_request lib response link =
     \<lparr>request.url = escaped_url lib (urljoin response link) (encoding response),
      meta = no_meta\<lparr>playwright := Some True\<rparr>,
      callback = Parse_profile, on_failure = Errback\<rparr>"

definition link_accepted :: "library \<Rightarrow> response \<Rightarrow> string \<Rightarrow> bool" where
  "link_accepted lib response link =
     (\<not> missing_scheme (escaped_url lib (urljoin response link) (encoding response)))"

definition page_accepted :: "library \<Rightarrow> response \<Rightarrow> bool" where
  "page_accepted lib response =
     (\<not> missing_scheme (escaped_url lib (response.url response) ''utf-8''))"

definition advance_request :: "library \<Rightarrow> response \<Rightarrow> request" where
  "advance_request lib response =
     \<lparr>request.url = escaped_url lib (response.url response) ''utf-8'',
      meta = no_meta\<lparr>playwright := Some True,
        playwright_page_methods :=
          Some [(''click'', ''button[aria-label='Next']''),
                (''wait_for_selector'', ''ul.reusable-search__result-list'')]\<rparr>,
      callback = Parse_search, on_failure = Errback\<rparr>"

section \<open>Example pages and requests\<close>

text \<open>
  Concrete pages, written as the answers they give to the queries of the spider: a search
  page is given by its result entries and its next-page buttons, a detail page by the list
  of its matches.
\<close>

definition text_node :: "string \<Rightarrow> selector" where
  "text_node t = Selector t [] []"

definition result_entry :: "selector list \<Rightarrow> selector" where
  "result_entry links =
     Selector ''<div class='entity-result__item'>...</div>''
       [(''class'', ''entity-result__item'')]
       [(''a.app-aware-link::attr(href)'', links)]"

definition three_entries :: "selector list" where
  "three_entries =
     [result_entry [text_node ''/in/ada''], result_entry [],
      result_entry [text_node ''/in/alan'']]"

definition enabled_next_button :: selector where
  "enabled_next_button =
     Selector ''<button aria-label='Next'>Next</button>'' [(''aria-label'', ''Next'')] []"

definition disabled_next_button :: selector where
  "disabled_next_button =
     Selector ''<button aria-label='Next' disabled>Next</button>''
       [(''aria-label'', ''Next''), (''disabled'', '''')] []"

text \<open>An element is disabled when it carries the HTML attribute \<open>disabled\<close>.\<close>

definition disabled :: "selector \<Rightarrow> bool" where
  "disabled node = (''disabled'' \<in> set (map fst (attrib node)))"

text \<open>
  The example pages resolve the two kinds of link that the examples use as \<open>urljoin\<close>
  does: a link that starts with \<open>/\<close> against the host, a link with a scheme of its own
  (\<open>javascript:\<close>) to itself. The URLs of the examples are ASCII and hold nothing to
  escape, so the example library leaves them as they are.
\<close>

definition example_urljoin :: "string \<Rightarrow> string" where
  "example_urljoin link =
     (if prefix ''/'' link then ''https://www.linkedin.com'' @ link else link)"

definition example_library :: library where
  "example_library = \<lparr>escaped_url = (\<lambda>u enc. u)\<rparr>"

definition search_page :: "selector list \<Rightarrow> selector list \<Rightarrow> response" where
  "search_page entries buttons =
     \<lparr>response.url = search_url,
      selector = Selector ''<html>...</html>'' []
        [(''ul.reusable-search__result-list li div.entity-result__item'', entries),
         (''button[aria-label='Next']'', buttons)],
      encoding = ''utf-8'',
      urljoin = example_urljoin\<rparr>"

text \<open>Two result entries, the first with a link that resolves to no URL with a scheme.\<close>

definition script_entries :: "selector list" where
  "script_entries =
     [result_entry [text_node ''javascript:void(0)''], result_entry [text_node ''/in/ada'']]"

definition education_entry :: "string \<Rightarrow> string \<Rightarrow> string \<Rightarrow> selector" where
  "education_entry s d p =
     Selector ''<li class='education__list-item'>...</li>'' [(''class'', ''education__list-item'')]
       [(''h3.pv-entity__school-name::text'', [text_node s]),
        (''p.pv-entity__degree-name span::text'', [text_node d]),
        (''p.pv-entity__dates span:nth-child(2)::text'', [text_node p])]"

definition polytechnique :: string where
  "polytechnique = CHR 0xC3 # CHR 0x89 # ''cole Polytechnique, France''"

definition profile_page :: "(string \<times> selector list) list \<Rightarrow> response" where
  "profile_page found =
     \<lparr>response.url = ''https://www.linkedin.com/in/ada'',
      selector = Selector ''<html>...</html>'' [] found,
      encoding = ''utf-8'',
      urljoin = example_urljoin\<rparr>"

definition no_headline_page :: response where
  "no_headline_page = profile_page
     [(''li.inline.t-24.t-black.t-normal.break-words::text'', [text_node '' Ada Lovelace '']),
      (''li.t-16.t-black.t-normal.inline-block::text'', [text_node ''Paris'']),
      (''section#experience-section li.pv-entity__position-group-pager '' @
       ''h3.t-16.t-black.t-bold a::text'', [text_node ''Engineer'']),
      (''section#education-section li.education__list-item'',
        [education_entry polytechnique ''MSc'' ''2010-2013'',
         education_entry ''MIT'' ''BSc'' ''2015-2019'',
         education_entry ''MIT'' ''BSc'' ''2015-2019 France exchange'']),
      (''section.pv-skill-categories-section '' @
       ''span.pv-skill-category-entity__name-text::text'',
        [text_node ''Python'', text_node '' Scrapy'', text_node ''Python''])]"

definition detail_request :: request where
  "detail_request =
     profile_request example_library (search_page three_entries []) ''/in/ada''"

definition exhausted_request :: request where
  "exhausted_request = detail_request\<lparr>meta := (meta detail_request)\<lparr>retry_times := Some 3\<rparr>\<rparr>"


definition ada_profile :: "string \<Rightarrow> LinkedInProfile" where
  "ada_profile now =
     \<lparr>name = ''Ada Lovelace'', headline = '''', location = ''Paris'',
      current_position = ''Engineer'',
      educations_in_france =
        [[(''school'', polytechnique), (''degree'', ''MSc''), (''period'', ''2010-2013'')],
         [(''school'', ''MIT''), (''degree'', ''BSc''),
          (''period'', ''2015-2019 France exchange'')]],
      skills = [''Python'', ''Scrapy'', ''Python''],
      profile_url = ''https://www.linkedin.com/in/ada'',
      scraped_at = now\<rparr>"

section \<open>Auxiliary facts\<close>

lemma strip_Nil: "strip [] = []"
  by (simp add: strip_def lstrip.simps rstrip.simps whitespace_def)

lemma str_in_sublist: "str_in sub s = sublist sub s"
  by (induction s) (auto simp: sublist_Cons_right)

lemma items_append: "items (xs @ ys) = items xs @ items ys"
  by (induction xs rule: items.induct) auto

lemma items_Req: "items (map (\<lambda>x. Req (f x)) xs) = []"
  by (induction xs) auto

lemma requests_for_append: "requests_for cb (xs @ ys) = requests_for cb xs @ requests_for cb ys"
  by (induction cb xs rule: requests_for.induct) auto

lemma requests_for_Req:
  "requests_for cb (map (\<lambda>x. Req (f x)) xs) = filter (\<lambda>r. callback r = cb) (map f xs)"
  by (induction xs) auto

lemma follow_accepted:
  "link_accepted lib response l \<Longrightarrow>
   follow lib response l Parse_profile (no_meta\<lparr>playwright := Some True\<rparr>) Errback =
     Inr (profile_request lib response l)"
  by (simp add: follow_def Request_def Let_def link_accepted_def profile_request_def)

lemma follow_callback: "follow lib response l cb m eb = Inr rq \<Longrightarrow> callback rq = cb"
  by (auto simp: follow_def Request_def Let_def split: if_splits)

lemma enqueue_accepted:
  "list_all (link_accepted lib response) (profile_links entries) \<Longrightarrow>
   enqueue_profiles lib response entries =
     (map (\<lambda>l. Req (profile_request lib response l)) (profile_links entries), [])"
proof (induction entries)
  case Nil
  show ?case by simp
next
  case (Cons entry entries)
  show ?case
  proof (cases "css entry ''a.app-aware-link::attr(href)''")
    case Nil
    with Cons show ?thesis by simp
  next
    case (Cons a rest)
    show ?thesis
    proof (cases "extracted a = []")
      case True
      with Cons Cons.IH Cons.prems show ?thesis by simp
    next
      case False
      with Cons Cons.prems
      have acc: "link_accepted lib response (extracted a)"
        and rest: "list_all (link_accepted lib response) (profile_links entries)"
        by simp_all
      from Cons.IH [OF rest] Cons False acc show ?thesis
        by (simp add: follow_accepted)
    qed
  qed
qed

lemma enqueue_items: "items (fst (enqueue_profiles lib response entries)) = []"
  by (induction entries) (auto simp: Let_def split: sum.splits prod.splits)

lemma enqueue_no_advance:
  "requests_for Parse_search (fst (enqueue_profiles lib response entries)) = []"
  by (induction entries)
     (auto simp: Let_def dest: follow_callback split: sum.splits prod.splits)

lemma enqueue_all_details:
  "length (requests_for Parse_profile (fst (enqueue_profiles lib response entries))) =
     length (fst (enqueue_profiles lib response entries))"
  by (induction entries)
     (auto simp: Let_def dest: follow_callback split: sum.splits prod.splits)

lemma requests_for_profile_requests:
  "requests_for Parse_profile (map (\<lambda>l. Req (profile_request lib response l)) ls) =
     map (profile_request lib response) ls"
  by (induction ls) (auto simp: profile_request_def)

lemma detail_requests_parse_search:
  "detail_requests (yielded (parse_search lib self response)) =
     requests_for Parse_profile (fst (enqueue_profiles lib response
       (css (selector response) ''ul.reusable-search__result-list li div.entity-result__item'')))"
  by (auto simp: detail_requests_def parse_search_def Let_def Request_def requests_for_append
      split: sum.splits)

lemma advance_requests_parse_search:
  "advance_requests (yielded (parse_search lib self response)) =
     (if snd (enqueue_profiles lib response
            (css (selector response)
               ''ul.reusable-search__result-list li div.entity-result__item'')) = [] \<and>
         truthy (get (css (selector response) ''button[aria-label='Next']'')) \<and>
         page_accepted lib response
      then [advance_request lib response] else [])"
  by (auto simp: advance_requests_def parse_search_def Let_def Request_def requests_for_append
      enqueue_no_advance page_accepted_def advance_request_def split: sum.splits)

lemma raised_parse_search:
  "raised (parse_search lib self response) =
     (if snd (enqueue_profiles lib response
            (css (selector response)
               ''ul.reusable-search__result-list li div.entity-result__item'')) \<noteq> []
      then snd (enqueue_profiles lib response
            (css (selector response)
               ''ul.reusable-search__result-list li div.entity-result__item''))
      else if truthy (get (css (selector response) ''button[aria-label='Next']'')) \<and>
              \<not> page_accepted lib response
      then [ValueError] else [])"
  by (auto simp: parse_search_def Let_def Request_def page_accepted_def split: sum.splits)

lemma length_yielded_parse_search:
  "length (yielded (parse_search lib self response)) =
     length (detail_requests (yielded (parse_search lib self response))) +
     length (advance_requests (yielded (parse_search lib self response)))"
  by (auto simp: detail_requests_parse_search advance_requests_parse_search enqueue_all_details)
     (auto simp: parse_search_def Let_def Request_def page_accepted_def split: sum.splits)

lemma items_parse_search: "items (yielded (parse_search lib self response)) = []"
  by (auto simp: parse_search_def Let_def Request_def items_append enqueue_items
      split: sum.splits)

lemma self_after_parse_search: "self_after (parse_search lib self response) = self"
  by (auto simp: parse_search_def Let_def Request_def split: sum.splits)

lemma run_total_profiles:
  "total_profiles (self_after (run lib self evs)) =
     total_profiles self + length (filter is_detail_page evs)"
proof (induction evs arbitrary: self)
  case Nil
  show ?case by simp
next
  case (Cons e evs)
  obtain now ev where e: "e = (now, ev)" by (cases e)
  show ?case
  proof (cases ev)
    case (Delivered rq response)
    then show ?thesis using Cons e
      by (cases "callback rq") (simp_all add: Let_def self_after_parse_search parse_profile_def)
  next
    case (Failed failure)
    then show ?thesis using Cons e by (simp add: Let_def errback_def)
  qed
qed

lemma run_items:
  "length (items (yielded (run lib self evs))) = length (filter is_detail_page evs)"
proof (induction evs arbitrary: self)
  case Nil
  show ?case by simp
next
  case (Cons e evs)
  obtain now ev where e: "e = (now, ev)" by (cases e)
  show ?case
  proof (cases ev)
    case (Delivered rq response)
    then show ?thesis using Cons e
      by (cases "callback rq")
         (simp_all add: Let_def items_append items_parse_search parse_profile_def)
  next
    case (Failed failure)
    then show ?thesis using Cons e by (simp add: Let_def errback_def items_append)
  qed
qed

lemma profile_links_length:
  "length (profile_links entries) =
     length (filter (\<lambda>entry. truthy (get (css entry ''a.app-aware-link::attr(href)''))) entries)"
  by (induction entries) (auto split: list.splits)

lemma educations_filter:
  "concat (map education edus) =
     map (\<lambda>edu. [(''school'', school edu), (''degree'', degree edu), (''period'', period edu)])
       (filter (\<lambda>edu. sublist ''France'' (school edu) \<or> sublist ''France'' (period edu)) edus)"
  by (induction edus) (auto simp: education_def str_in_sublist)

lemma items_errback: "items (yielded (errback self failure)) = []"
  by (simp add: errback_def Let_def)

lemma parse_profile_self:
  "yielded (parse_profile now self response) = yielded (parse_profile now self' response)"
  by (simp add: parse_profile_def Let_def)

lemma parse_profile_single:
  "\<exists>p. yielded (parse_profile now self response) = [Item p]"
  by (simp add: parse_profile_def Let_def)

lemma items_run_mem:
  "p \<in> set (items (yielded (run lib self evs))) \<Longrightarrow>
   \<exists>now rq response. (now, Delivered rq response) \<in> set evs \<and> callback rq = Parse_profile \<and>
      yielded (parse_profile now init response) = [Item p]"
proof (induction evs arbitrary: self)
  case Nil
  then show ?case by simp
next
  case (Cons e evs)
  obtain now ev where e: "e = (now, ev)" by (cases e)
  let ?first = "dispatch lib now self ev"
  from Cons.prems e
  have mem: "p \<in> set (items (yielded ?first)) \<or>
             p \<in> set (items (yielded (run lib (self_after ?first) evs)))"
    by (simp add: Let_def items_append)
  show ?case
  proof (cases "p \<in> set (items (yielded (run lib (self_after ?first) evs)))")
    case True
    from Cons.IH [OF True] show ?thesis by auto
  next
    case False
    with mem have here: "p \<in> set (items (yielded ?first))" by simp
    show ?thesis
    proof (cases ev)
      case (Failed failure)
      with here show ?thesis by (simp add: items_errback)
    next
      case (Delivered rq response)
      show ?thesis
      proof (cases "callback rq")
        case Parse_search
        with here Delivered show ?thesis by (simp add: items_parse_search)
      next
        case Parse_profile
        obtain q where q: "yielded (parse_profile now self response) = [Item q]"
          using parse_profile_single by blast
        with here Delivered Parse_profile have "p = q" by simp
        with q have "yielded (parse_profile now init response) = [Item p]"
          using parse_profile_self [of now self response init] by simp
        with e Delivered Parse_profile show ?thesis by auto
      qed
    qed
  qed
qed

lemma education_keys:
  "d \<in> set (concat (map education edus)) \<Longrightarrow> map fst d = [''school'', ''degree'', ''period'']"
  by (auto simp: education_def split: if_splits)


lemma parse_ada: "yielded (parse_profile ''2026-01-01 00:00:00'' init no_headline_page) =
    [Item (ada_profile ''2026-01-01 00:00:00'')]"
  by code_simp

section \<open>Properties\<close>

text \<open>
  C1. For a failed request whose retry count is \<open>a\<close> (the \<open>retry_times\<close> entry of its
  meta, 0 when absent): when \<open>a < 3\<close> the failure handler sleeps exactly \<open>2 ^ a\<close> seconds
  and yields exactly one request, the failed one with count \<open>a + 1\<close>; when \<open>a \<ge> 3\<close> it
  does not sleep and yields nothing. The delays at counts 0, 1, 2 are 1, 2, 4.
\<close>

theorem errback_backoff:
  assumes "meta_get_retry_times (meta (request failure)) 0 = a"
  shows "(a < 3 \<longrightarrow>
            slept (errback self failure) = [2 ^ a] \<and>
            yielded (errback self failure) =
              [Req ((request failure)\<lparr>meta :=
                 (meta (request failure))\<lparr>retry_times := Some (a + 1)\<rparr>\<rparr>)]) \<and>
         (3 \<le> a \<longrightarrow>
            slept (errback self failure) = [] \<and> yielded (errback self failure) = []) \<and>
         map (\<lambda>n. slept (errback self (Failure (rq\<lparr>meta := (meta rq)\<lparr>retry_times := Some n\<rparr>\<rparr>))))
           [0, 1, 2] = [[1], [2], [4]]"
  using assms by (auto simp: errback_def Let_def meta_get_retry_times_def)

theorem errback_backoff_witness:
  "meta_get_retry_times (meta (request (Failure detail_request))) 0 = 0 \<and>
   slept (errback init (Failure detail_request)) = [1] \<and>
   yielded (errback init (Failure detail_request)) =
     [Req (detail_request\<lparr>meta := (meta detail_request)\<lparr>retry_times := Some 1\<rparr>\<rparr>)] \<and>
   meta_get_retry_times (meta (request (Failure exhausted_request))) 0 = 3 \<and>
   slept (errback init (Failure exhausted_request)) = [] \<and>
   yielded (errback init (Failure exhausted_request)) = []"
proof -
  have a0: "meta_get_retry_times (meta (request (Failure detail_request))) 0 = 0"
    by (simp add: meta_get_retry_times_def detail_request_def profile_request_def no_meta_def)
  have a3: "meta_get_retry_times (meta (request (Failure exhausted_request))) 0 = 3"
    by (simp add: meta_get_retry_times_def exhausted_request_def)
  show ?thesis
    using errback_backoff [OF a0, of init] errback_backoff [OF a3, of init] a0 a3
    by simp
qed

text \<open>
  C2. When the spider is closed, \<open>on_spider_closed\<close> raises \<open>CloseSpider\<close> exactly when its
  counter of profiles is 0, and raises nothing when the counter is positive. After any run
  that started from a fresh spider, the counter is the number of records the run emitted,
  so the handler raises exactly when the run emitted no record.
\<close>

theorem on_spider_closed_empty_run:
  "(snd (on_spider_closed self spider) = Some CloseSpider) = (total_profiles self = 0) \<and>
   (snd (on_spider_closed self spider) = None) = (0 < total_profiles self) \<and>
   (snd (on_spider_closed (self_after (run lib init evs)) spider) = Some CloseSpider) =
     (items (yielded (run lib init evs)) = [])"
proof -
  have "total_profiles (self_after (run lib init evs)) = length (items (yielded (run lib init evs)))"
    by (simp add: run_total_profiles run_items init_def)
  then show ?thesis
    by (simp add: on_spider_closed_def)
qed

theorem on_spider_closed_empty_run_witness:
  "snd (on_spider_closed (self_after (run example_library init [])) init) = Some CloseSpider \<and>
   items (yielded (run example_library init [])) = [] \<and>
   snd (on_spider_closed
     (self_after (run example_library init [(''2026-01-01 00:00:00'', Delivered detail_request no_headline_page)]))
     init) = None \<and>
   length (items (yielded
     (run example_library init [(''2026-01-01 00:00:00'', Delivered detail_request no_headline_page)]))) = 1"
proof -
  have cb: "callback detail_request = Parse_profile"
    by (simp add: detail_request_def profile_request_def)
  have one: "items (yielded
      (run example_library init [(''2026-01-01 00:00:00'', Delivered detail_request no_headline_page)])) =
    items (yielded (parse_profile ''2026-01-01 00:00:00'' init no_headline_page))"
    by (simp add: cb Let_def)
  have len: "length (items (yielded
      (parse_profile ''2026-01-01 00:00:00'' init no_headline_page))) = 1"
    by (simp add: parse_profile_def Let_def)
  show ?thesis
    using on_spider_closed_empty_run [of "self_after (run example_library init [])" init
        example_library "[]"]
      on_spider_closed_empty_run [of
        "self_after (run example_library init [(''2026-01-01 00:00:00'', Delivered detail_request no_headline_page)])"
        init example_library
        "[(''2026-01-01 00:00:00'', Delivered detail_request no_headline_page)]"]
      one len
    by (auto simp: init_def)
qed

text \<open>
  C3, as stated, asks the failure handler to count a request that is given up. The spider
  keeps a single counter, \<open>total_profiles\<close>, and no count of failed requests: for a
  request that already has 3 retries, the handler returns the spider object as it was, with
  the counter still 0.
\<close>

theorem errback_giveup_unrecorded:
  "meta_get_retry_times (meta (request (Failure exhausted_request))) 0 = 3 \<and>
   self_after (errback init (Failure exhausted_request)) = init \<and>
   total_profiles (self_after (errback init (Failure exhausted_request))) = 0"
  by (simp add: errback_def Let_def meta_get_retry_times_def exhausted_request_def init_def)

text \<open>
  C3, amended. For a failed request whose retry count is at least 3, the failure handler
  logs the error and a give-up warning, yields nothing (the request is dropped), does not
  sleep and leaves the spider object unchanged; no counter records the failure. The run
  goes on: what the remaining calls yield and the spider object they end with are the same
  as if the failure had not been delivered.
\<close>

theorem errback_giveup:
  assumes "3 \<le> meta_get_retry_times (meta (request failure)) 0"
  shows "errback self failure =
           \<lparr>yielded = [], slept = [],
            logged = [Request_failed (request.url (request failure)),
                      Giveup (request.url (request failure))
                        (meta_get_retry_times (meta (request failure)) 0)],
            self_after = self, raised = []\<rparr> \<and>
         yielded (run lib self ((now, Failed failure) # evs)) = yielded (run lib self evs) \<and>
         slept (run lib self ((now, Failed failure) # evs)) = slept (run lib self evs) \<and>
         self_after (run lib self ((now, Failed failure) # evs)) = self_after (run lib self evs)"
  using assms by (simp add: errback_def Let_def)

theorem errback_giveup_witness:
  "3 \<le> meta_get_retry_times (meta (request (Failure exhausted_request))) 0 \<and>
   errback init (Failure exhausted_request) =
     \<lparr>yielded = [], slept = [],
      logged = [Request_failed ''https://www.linkedin.com/in/ada'',
                Giveup ''https://www.linkedin.com/in/ada'' 3],
      self_after = init, raised = []\<rparr> \<and>
   yielded (run example_library init
     [(''2026-01-01 00:00:00'', Failed (Failure exhausted_request)),
      (''2026-01-01 00:00:01'', Delivered detail_request no_headline_page)]) =
   yielded (run example_library init [(''2026-01-01 00:00:01'', Delivered detail_request no_headline_page)])"
proof -
  have a3: "3 \<le> meta_get_retry_times (meta (request (Failure exhausted_request))) 0"
    by (simp add: meta_get_retry_times_def exhausted_request_def)
  have u: "request.url (request (Failure exhausted_request)) = ''https://www.linkedin.com/in/ada''"
    by (simp add: exhausted_request_def detail_request_def profile_request_def search_page_def
        example_library_def example_urljoin_def)
  have n: "meta_get_retry_times (meta (request (Failure exhausted_request))) 0 = 3"
    by (simp add: meta_get_retry_times_def exhausted_request_def)
  note g = errback_giveup [OF a3, of init example_library "''2026-01-01 00:00:00''"
      "[(''2026-01-01 00:00:01'', Delivered detail_request no_headline_page)]"]
  have e: "errback init (Failure exhausted_request) =
     \<lparr>yielded = [], slept = [],
      logged = [Request_failed ''https://www.linkedin.com/in/ada'',
                Giveup ''https://www.linkedin.com/in/ada'' 3],
      self_after = init, raised = []\<rparr>"
    using g [THEN conjunct1] unfolding u n .
  have y: "yielded (run example_library init
     [(''2026-01-01 00:00:00'', Failed (Failure exhausted_request)),
      (''2026-01-01 00:00:01'', Delivered detail_request no_headline_page)]) =
   yielded (run example_library init [(''2026-01-01 00:00:01'', Delivered detail_request no_headline_page)])"
    using g [THEN conjunct2, THEN conjunct1] .
  show ?thesis
    using a3 e y by blast
qed

text \<open>
  C4, as stated, asks for no advance request on a page whose next-page control is disabled.
  The spider asks for \<open>button[aria-label='Next']\<close> only and never looks at the button's
  \<open>disabled\<close> attribute: on a page whose only such button is disabled it yields the advance
  request.
\<close>

theorem parse_search_disabled_next:
  "disabled disabled_next_button \<and>
   css (selector (search_page three_entries [disabled_next_button])) ''button[aria-label='Next']'' =
     [disabled_next_button] \<and>
   advance_requests (yielded
     (parse_search example_library init (search_page three_entries [disabled_next_button]))) =
     [advance_request example_library (search_page three_entries [disabled_next_button])]"
proof -
  have d: "disabled disabled_next_button"
    by (simp add: disabled_def disabled_next_button_def)
  have c: "css (selector (search_page three_entries [disabled_next_button]))
      ''button[aria-label='Next']'' = [disabled_next_button]"
    by (simp add: search_page_def css_def)
  have a: "advance_requests (yielded
     (parse_search example_library init (search_page three_entries [disabled_next_button]))) =
     [advance_request example_library (search_page three_entries [disabled_next_button])]"
    by code_simp
  show ?thesis
    using d c a by blast
qed

text \<open>
  C4, amended. For every rendered search page, \<open>parse_search\<close> yields an advance request
  only when the page has a node matching \<open>button[aria-label='Next']\<close>, disabled or not,
  and none when no such node is present, whatever the result entries are. When every
  non-empty profile link of the page and the URL of the page resolve to a URL that the
  constructor of a request accepts, it raises nothing and yields exactly one advance
  request if such a node is present (its extracted markup not empty) and none otherwise,
  however many result entries the page has.
\<close>

theorem parse_search_advance:
  "(advance_requests (yielded (parse_search lib self response)) \<noteq> [] \<longrightarrow>
      truthy (get (css (selector response) ''button[aria-label='Next']''))) \<and>
   (css (selector response) ''button[aria-label='Next']'' = [] \<longrightarrow>
      advance_requests (yielded (parse_search lib self response)) = []) \<and>
   (list_all (link_accepted lib response)
      (profile_links (css (selector response)
         ''ul.reusable-search__result-list li div.entity-result__item'')) \<and>
    page_accepted lib response \<longrightarrow>
      raised (parse_search lib self response) = [] \<and>
      advance_requests (yielded (parse_search lib self response)) =
        (if truthy (get (css (selector response) ''button[aria-label='Next']''))
         then [advance_request lib response] else []))"
proof -
  have g1: "advance_requests (yielded (parse_search lib self response)) \<noteq> [] \<longrightarrow>
      truthy (get (css (selector response) ''button[aria-label='Next']''))"
    by (simp add: advance_requests_parse_search)
  have g2: "css (selector response) ''button[aria-label='Next']'' = [] \<longrightarrow>
      advance_requests (yielded (parse_search lib self response)) = []"
    by (simp add: advance_requests_parse_search)
  have g3: "list_all (link_accepted lib response)
      (profile_links (css (selector response)
         ''ul.reusable-search__result-list li div.entity-result__item'')) \<and>
    page_accepted lib response \<longrightarrow>
      raised (parse_search lib self response) = [] \<and>
      advance_requests (yielded (parse_search lib self response)) =
        (if truthy (get (css (selector response) ''button[aria-label='Next']''))
         then [advance_request lib response] else [])"
    by (simp add: advance_requests_parse_search raised_parse_search enqueue_accepted)
  show ?thesis
    using g1 g2 g3 by blast
qed

theorem parse_search_advance_witness:
  "css (selector (search_page three_entries [])) ''button[aria-label='Next']'' = [] \<and>
   advance_requests (yielded (parse_search example_library init (search_page three_entries []))) =
     [] \<and>
   list_all (link_accepted example_library (search_page [] [enabled_next_button]))
     (profile_links (css (selector (search_page [] [enabled_next_button]))
        ''ul.reusable-search__result-list li div.entity-result__item'')) \<and>
   page_accepted example_library (search_page [] [enabled_next_button]) \<and>
   truthy (get (css (selector (search_page [] [enabled_next_button]))
     ''button[aria-label='Next']'')) \<and>
   raised (parse_search example_library init (search_page [] [enabled_next_button])) = [] \<and>
   advance_requests (yielded
     (parse_search example_library init (search_page [] [enabled_next_button]))) =
     [advance_request example_library (search_page [] [enabled_next_button])]"
proof -
  have c3: "css (selector (search_page three_entries [])) ''button[aria-label='Next']'' = []"
    by (simp add: search_page_def css_def)
  have l: "list_all (link_accepted example_library (search_page [] [enabled_next_button]))
     (profile_links (css (selector (search_page [] [enabled_next_button]))
        ''ul.reusable-search__result-list li div.entity-result__item''))"
    by (simp add: search_page_def css_def)
  have p: "page_accepted example_library (search_page [] [enabled_next_button])"
    by code_simp
  have t: "truthy (get (css (selector (search_page [] [enabled_next_button]))
     ''button[aria-label='Next']''))"
    by (simp add: search_page_def css_def enabled_next_button_def)
  note a = parse_search_advance [of example_library init "search_page three_entries []"]
  note b = parse_search_advance [of example_library init "search_page [] [enabled_next_button]"]
  have r0: "advance_requests (yielded
      (parse_search example_library init (search_page three_entries []))) = []"
    using a c3 by blast
  have r1: "raised (parse_search example_library init (search_page [] [enabled_next_button])) = [] \<and>
    advance_requests (yielded
     (parse_search example_library init (search_page [] [enabled_next_button]))) =
     [advance_request example_library (search_page [] [enabled_next_button])]"
    using b l p t by simp
  show ?thesis
    using c3 l p t r0 r1 by blast
qed

text \<open>
  C5, as stated, asks for one detail-page request for every result entry with a resolvable
  profile link, without any error. The spider follows every non-empty link, and
  \<open>response.follow\<close> raises \<open>ValueError\<close> for a link that resolves to a URL without
  scheme, which ends the call: on the page whose first entry links to
  \<open>javascript:void(0)\<close> and whose second entry links to a profile, no request is yielded
  and the exception is raised.
\<close>

theorem parse_search_refused_link:
  "profile_links (css (selector (search_page script_entries [enabled_next_button]))
      ''ul.reusable-search__result-list li div.entity-result__item'') =
     [''javascript:void(0)'', ''/in/ada''] \<and>
   link_accepted example_library (search_page script_entries [enabled_next_button]) ''/in/ada'' \<and>
   yielded (parse_search example_library init
     (search_page script_entries [enabled_next_button])) = [] \<and>
   raised (parse_search example_library init
     (search_page script_entries [enabled_next_button])) = [ValueError]"
proof -
  have l: "profile_links (css (selector (search_page script_entries [enabled_next_button]))
      ''ul.reusable-search__result-list li div.entity-result__item'') =
     [''javascript:void(0)'', ''/in/ada'']"
    by code_simp
  have a: "link_accepted example_library
      (search_page script_entries [enabled_next_button]) ''/in/ada''"
    by code_simp
  have y: "yielded (parse_search example_library init
     (search_page script_entries [enabled_next_button])) = []"
    by code_simp
  have r: "raised (parse_search example_library init
     (search_page script_entries [enabled_next_button])) = [ValueError]"
    by code_simp
  show ?thesis
    using l a y r by blast
qed

text \<open>
  C5, amended. For every rendered search page on which every non-empty profile link
  resolves to a URL that the constructor of a request accepts, the detail-page requests
  that \<open>parse_search\<close> yields are, in order, the requests for the profile links of the
  result entries: one for each entry that has a non-empty link, none for the others (they
  are skipped without error), and nothing else is yielded but advance requests; when the
  URL of the page is accepted too, nothing is raised. On the page with three entries, two
  of them with a link, and an enabled next-page button, there are two detail requests and
  one advance request.
\<close>

theorem parse_search_details:
  assumes "list_all (link_accepted lib response)
     (profile_links (css (selector response)
        ''ul.reusable-search__result-list li div.entity-result__item''))"
  shows "detail_requests (yielded (parse_search lib self response)) =
     map (profile_request lib response)
       (profile_links (css (selector response)
          ''ul.reusable-search__result-list li div.entity-result__item'')) \<and>
   length (detail_requests (yielded (parse_search lib self response))) =
     length (filter (\<lambda>entry. truthy (get (css entry ''a.app-aware-link::attr(href)'')))
       (css (selector response) ''ul.reusable-search__result-list li div.entity-result__item'')) \<and>
   length (yielded (parse_search lib self response)) =
     length (detail_requests (yielded (parse_search lib self response))) +
     length (advance_requests (yielded (parse_search lib self response))) \<and>
   (page_accepted lib response \<longrightarrow> raised (parse_search lib self response) = [])"
proof -
  have g0: "detail_requests (yielded (parse_search lib self response)) =
     map (profile_request lib response)
       (profile_links (css (selector response)
          ''ul.reusable-search__result-list li div.entity-result__item''))"
    by (simp add: detail_requests_parse_search enqueue_accepted [OF assms]
        requests_for_profile_requests)
  have g1: "length (detail_requests (yielded (parse_search lib self response))) =
     length (filter (\<lambda>entry. truthy (get (css entry ''a.app-aware-link::attr(href)'')))
       (css (selector response) ''ul.reusable-search__result-list li div.entity-result__item''))"
    by (simp add: g0 profile_links_length)
  have g2: "length (yielded (parse_search lib self response)) =
     length (detail_requests (yielded (parse_search lib self response))) +
     length (advance_requests (yielded (parse_search lib self response)))"
    by (rule length_yielded_parse_search)
  have g3: "page_accepted lib response \<longrightarrow> raised (parse_search lib self response) = []"
    by (simp add: raised_parse_search enqueue_accepted [OF assms])
  show ?thesis
    using g0 g1 g2 g3 by blast
qed

theorem parse_search_details_witness:
  "list_all (link_accepted example_library (search_page three_entries [enabled_next_button]))
     (profile_links (css (selector (search_page three_entries [enabled_next_button]))
        ''ul.reusable-search__result-list li div.entity-result__item'')) \<and>
   length (filter (\<lambda>entry. truthy (get (css entry ''a.app-aware-link::attr(href)'')))
     (css (selector (search_page three_entries [enabled_next_button]))
        ''ul.reusable-search__result-list li div.entity-result__item'')) = 2 \<and>
   page_accepted example_library (search_page three_entries [enabled_next_button]) \<and>
   map request.url (detail_requests (yielded
     (parse_search example_library init (search_page three_entries [enabled_next_button])))) =
     [''https://www.linkedin.com/in/ada'', ''https://www.linkedin.com/in/alan''] \<and>
   length (detail_requests (yielded
     (parse_search example_library init (search_page three_entries [enabled_next_button])))) = 2 \<and>
   length (advance_requests (yielded
     (parse_search example_library init (search_page three_entries [enabled_next_button])))) = 1 \<and>
   length (yielded
     (parse_search example_library init (search_page three_entries [enabled_next_button]))) = 3 \<and>
   raised (parse_search example_library init
     (search_page three_entries [enabled_next_button])) = []"
proof -
  have pl: "profile_links (css (selector (search_page three_entries [enabled_next_button]))
        ''ul.reusable-search__result-list li div.entity-result__item'') =
      [''/in/ada'', ''/in/alan'']"
    by code_simp
  have h: "list_all (link_accepted example_library
        (search_page three_entries [enabled_next_button]))
     (profile_links (css (selector (search_page three_entries [enabled_next_button]))
        ''ul.reusable-search__result-list li div.entity-result__item''))"
    by code_simp
  have n: "length (filter (\<lambda>entry. truthy (get (css entry ''a.app-aware-link::attr(href)'')))
     (css (selector (search_page three_entries [enabled_next_button]))
        ''ul.reusable-search__result-list li div.entity-result__item'')) = 2"
    by code_simp
  have p: "page_accepted example_library (search_page three_entries [enabled_next_button])"
    by code_simp
  have a1: "length (advance_requests (yielded
     (parse_search example_library init (search_page three_entries [enabled_next_button])))) = 1"
    by code_simp
  have u: "map request.url (map (profile_request example_library
        (search_page three_entries [enabled_next_button])) [''/in/ada'', ''/in/alan'']) =
     [''https://www.linkedin.com/in/ada'', ''https://www.linkedin.com/in/alan'']"
    by code_simp
  note t = parse_search_details [OF h, of init]
  have d: "detail_requests (yielded
     (parse_search example_library init (search_page three_entries [enabled_next_button]))) =
     map (profile_request example_library (search_page three_entries [enabled_next_button]))
       [''/in/ada'', ''/in/alan'']"
    using t [THEN conjunct1] unfolding pl .
  have dl: "length (detail_requests (yielded
     (parse_search example_library init (search_page three_entries [enabled_next_button])))) = 2"
    using t [THEN conjunct2, THEN conjunct1] unfolding n .
  have yl: "length (yielded
     (parse_search example_library init (search_page three_entries [enabled_next_button]))) = 3"
    using t [THEN conjunct2, THEN conjunct2, THEN conjunct1] unfolding dl a1 by simp
  have r: "raised (parse_search example_library init
     (search_page three_entries [enabled_next_button])) = []"
    using t [THEN conjunct2, THEN conjunct2, THEN conjunct2] p by blast
  have du: "map request.url (detail_requests (yielded
     (parse_search example_library init (search_page three_entries [enabled_next_button])))) =
     [''https://www.linkedin.com/in/ada'', ''https://www.linkedin.com/in/alan'']"
    unfolding d by (rule u)
  show ?thesis
    using h n p du dl a1 yl r by blast
qed

text \<open>
  C6. The record that \<open>parse_profile\<close> yields lists, in page order, exactly the education
  entries for which \<open>France\<close> is a contiguous part of the school text or of the period
  text (both stripped), each as a dictionary of school, degree and period. The entry with
  school "Ecole Polytechnique, France" (with its accent) is kept, the entry with school
  "MIT" and period "2015-2019" is dropped and the entry with school "MIT" and period
  "2015-2019 France exchange" is kept.
\<close>

theorem education_filter:
  "(\<exists>p. yielded (parse_profile now self response) = [Item p] \<and>
      educations_in_france p =
        map (\<lambda>edu. [(''school'', school edu), (''degree'', degree edu), (''period'', period edu)])
          (filter (\<lambda>edu. sublist ''France'' (school edu) \<or> sublist ''France'' (period edu))
            (css (selector response) ''section#education-section li.education__list-item''))) \<and>
   education (education_entry polytechnique ''MSc'' ''2010-2013'') =
     [[(''school'', polytechnique), (''degree'', ''MSc''), (''period'', ''2010-2013'')]] \<and>
   education (education_entry ''MIT'' ''BSc'' ''2015-2019'') = [] \<and>
   education (education_entry ''MIT'' ''BSc'' ''2015-2019 France exchange'') =
     [[(''school'', ''MIT''), (''degree'', ''BSc''), (''period'', ''2015-2019 France exchange'')]]"
proof -
  have g: "\<exists>p. yielded (parse_profile now self response) = [Item p] \<and>
      educations_in_france p =
        map (\<lambda>edu. [(''school'', school edu), (''degree'', degree edu), (''period'', period edu)])
          (filter (\<lambda>edu. sublist ''France'' (school edu) \<or> sublist ''France'' (period edu))
            (css (selector response) ''section#education-section li.education__list-item''))"
    by (simp add: parse_profile_def Let_def educations_filter)
  have e1: "education (education_entry polytechnique ''MSc'' ''2010-2013'') =
     [[(''school'', polytechnique), (''degree'', ''MSc''), (''period'', ''2010-2013'')]]"
    by code_simp
  have e2: "education (education_entry ''MIT'' ''BSc'' ''2015-2019'') = []"
    by code_simp
  have e3: "education (education_entry ''MIT'' ''BSc'' ''2015-2019 France exchange'') =
     [[(''school'', ''MIT''), (''degree'', ''BSc''), (''period'', ''2015-2019 France exchange'')]]"
    by code_simp
  show ?thesis
    using g e1 e2 e3 by blast
qed



text \<open>
  C8. Every record emitted in a run comes from a detail page delivered to
  \<open>parse_profile\<close>: its \<open>profile_url\<close> is the URL of that page, its time stamp is the
  clock reading of that call, each of its four text fields is the stripped first match of
  its anchor, with the empty string standing in when nothing matches, and each of its
  education dictionaries has the three keys school, degree and period. The fields of the
  record are strings and lists by type, so none of them can be missing.
\<close>

theorem emitted_record_complete:
  assumes "p \<in> set (items (yielded (run lib self evs)))"
  shows "\<exists>now rq response. (now, Delivered rq response) \<in> set evs \<and>
      callback rq = Parse_profile \<and>
      profile_url p = response.url response \<and>
      scraped_at p = now \<and>
      name p = strip (get_default (css (selector response)
        ''li.inline.t-24.t-black.t-normal.break-words::text'') '''') \<and>
      headline p = strip (get_default (css (selector response)
        ''h2.mt1.t-18.t-black.t-normal.break-words::text'') '''') \<and>
      location p = strip (get_default (css (selector response)
        ''li.t-16.t-black.t-normal.inline-block::text'') '''') \<and>
      current_position p = strip (get_default (css (selector response)
        (''section#experience-section li.pv-entity__position-group-pager '' @
         ''h3.t-16.t-black.t-bold a::text'')) '''') \<and>
      (\<forall>d \<in> set (educations_in_france p). map fst d = [''school'', ''degree'', ''period''])"
proof -
  from items_run_mem [OF assms]
  obtain now rq response where ev: "(now, Delivered rq response) \<in> set evs"
    and cb: "callback rq = Parse_profile"
    and y: "yielded (parse_profile now init response) = [Item p]"
    by blast
  from y have e: "educations_in_france p = concat (map education
      (css (selector response) ''section#education-section li.education__list-item''))"
    by (auto simp: parse_profile_def Let_def)
  have k: "\<forall>d \<in> set (educations_in_france p). map fst d = [''school'', ''degree'', ''period'']"
    unfolding e using education_keys by blast
  from y have f: "profile_url p = response.url response \<and>
      scraped_at p = now \<and>
      name p = strip (get_default (css (selector response)
        ''li.inline.t-24.t-black.t-normal.break-words::text'') '''') \<and>
      headline p = strip (get_default (css (selector response)
        ''h2.mt1.t-18.t-black.t-normal.break-words::text'') '''') \<and>
      location p = strip (get_default (css (selector response)
        ''li.t-16.t-black.t-normal.inline-block::text'') '''') \<and>
      current_position p = strip (get_default (css (selector response)
        (''section#experience-section li.pv-entity__position-group-pager '' @
         ''h3.t-16.t-black.t-bold a::text'')) '''')"
    by (auto simp: parse_profile_def Let_def)
  from ev cb f k show ?thesis by blast
qed

theorem emitted_record_complete_witness:
  "ada_profile ''2026-01-01 00:00:00'' \<in> set (items (yielded (run example_library init
     [(''2026-01-01 00:00:00'', Delivered detail_request no_headline_page)]))) \<and>
   profile_url (ada_profile ''2026-01-01 00:00:00'') = response.url no_headline_page \<and>
   headline (ada_profile ''2026-01-01 00:00:00'') = '''' \<and>
   scraped_at (ada_profile ''2026-01-01 00:00:00'') = ''2026-01-01 00:00:00'' \<and>
   list_all (\<lambda>d. map fst d = [''school'', ''degree'', ''period''])
     (educations_in_france (ada_profile ''2026-01-01 00:00:00''))"
proof -
  have cb: "callback detail_request = Parse_profile"
    by (simp add: detail_request_def profile_request_def)
  have h: "ada_profile ''2026-01-01 00:00:00'' \<in> set (items (yielded (run example_library init
     [(''2026-01-01 00:00:00'', Delivered detail_request no_headline_page)])))"
    by (simp add: cb Let_def parse_ada)
  have c: "get_default (css (selector no_headline_page)
      ''h2.mt1.t-18.t-black.t-normal.break-words::text'') '''' = ''''"
    by code_simp
  from emitted_record_complete [OF h]
  have "profile_url (ada_profile ''2026-01-01 00:00:00'') = response.url no_headline_page \<and>
      scraped_at (ada_profile ''2026-01-01 00:00:00'') = ''2026-01-01 00:00:00'' \<and>
      headline (ada_profile ''2026-01-01 00:00:00'') = strip (get_default (css (selector no_headline_page)
        ''h2.mt1.t-18.t-black.t-normal.break-words::text'') '''') \<and>
      (\<forall>d \<in> set (educations_in_france (ada_profile ''2026-01-01 00:00:00'')).
         map fst d = [''school'', ''degree'', ''period''])"
    by auto
  then show ?thesis
    using h by (simp add: c strip_Nil list_all_iff)
qed

text \<open>
  C9. Two calls of \<open>parse_profile\<close> on the same response, at any two clock readings and
  with the spider object in any two states, yield the same record up to the field
  \<open>scraped_at\<close>, which holds the clock reading of each call.
\<close>

theorem parse_profile_deterministic:
  "\<exists>p. yielded (parse_profile now1 self1 response) = [Item (p\<lparr>scraped_at := now1\<rparr>)] \<and>
       yielded (parse_profile now2 self2 response) = [Item (p\<lparr>scraped_at := now2\<rparr>)]"
proof -
  obtain q where q: "yielded (parse_profile now1 self1 response) = [Item q]"
    by (simp add: parse_profile_def Let_def)
  have "yielded (parse_profile now1 self1 response) = [Item (q\<lparr>scraped_at := now1\<rparr>)]"
    using q by (auto simp: parse_profile_def Let_def)
  moreover have "yielded (parse_profile now2 self2 response) = [Item (q\<lparr>scraped_at := now2\<rparr>)]"
    using q by (auto simp: parse_profile_def Let_def)
  ultimately show ?thesis by blast
qed

text \<open>
  C10. \<open>parse_profile\<close> yields exactly one record for every response, whatever the page
  holds, and adds exactly one to the counter of profiles. Hence after any run that started
  from a fresh spider, the number of records emitted and the counter both equal the number
  of detail pages delivered to \<open>parse_profile\<close>.
\<close>

theorem parse_profile_emits_one:
  "(\<exists>p. yielded (parse_profile now self response) = [Item p]) \<and>
   total_profiles (self_after (parse_profile now self response)) = total_profiles self + 1 \<and>
   length (items (yielded (run lib init evs))) = length (filter is_detail_page evs) \<and>
   total_profiles (self_after (run lib init evs)) = length (filter is_detail_page evs)"
  by (simp add: parse_profile_def Let_def run_items run_total_profiles init_def)

end
